theory Spec2Isabelle
  imports Main "HOL-Library.Sublist"
begin

section \<open>The HTTP side: requests and the response writer\<close>

text \<open>
  A Go error is used by the handlers only through \<open>err.Error()\<close>, so an error is
  represented by its message text.
\<close>

type_synonym go_error = string

text \<open>
  JSON documents as the tokenizer of \<open>encoding/json\<close> delivers them. A number literal
  without fraction and exponent is \<open>JInt\<close>; any other number literal keeps its text.
\<close>

datatype json =
    JNull
  | JBool bool
  | JInt int
  | JFrac string
  | JStr string
  | JArr "json list"
  | JObj "(string \<times> json) list"

text \<open>
  The request body as \<open>json.NewDecoder(r.Body).Decode\<close> reads it: either the first
  complete JSON value of the stream, or the error the tokenizer reports (a syntax error,
  or \<open>EOF\<close> for an empty body).
\<close>

datatype req_body = Malformed go_error | Document json

record request =
  Method :: string
  Vars :: "string \<rightharpoonup> string"
  Query_params :: "(string \<times> string) list"
  Body :: req_body

text \<open>
  What a handler writes to the body, one part per call: \<open>http.Error\<close> prints its
  message with \<open>Fprintln\<close> (a line), \<open>Encoder.Encode\<close> writes one JSON document
  (also ended by a newline).
\<close>

datatype body_part = Line string | JsonDoc json

record response =
  header :: "string \<rightharpoonup> string"
  status :: "nat option"
  body :: "body_part list"

text \<open>
  The writer a handler is given: nothing written yet, the headers \<open>h\<close> already set
  by whoever runs before it.
\<close>

definition fresh :: "(string \<rightharpoonup> string) \<Rightarrow> response" where
  "fresh h = \<lparr>header = h, status = None, body = []\<rparr>"

definition header_Set :: "string \<Rightarrow> string \<Rightarrow> response \<Rightarrow> response" where
  "header_Set k v w = w\<lparr>header := (header w)(k \<mapsto> v)\<rparr>"

definition header_Del :: "string \<Rightarrow> response \<Rightarrow> response" where
  "header_Del k w = w\<lparr>header := (header w)(k := None)\<rparr>"

text \<open>The status line is written once; a later \<open>WriteHeader\<close> is ignored.\<close>

definition WriteHeader :: "nat \<Rightarrow> response \<Rightarrow> response" where
  "WriteHeader code w = (if status w = None then w\<lparr>status := Some code\<rparr> else w)"

text \<open>A write to the body sends status 200 first when no status was written yet.\<close>

definition Write :: "body_part \<Rightarrow> response \<Rightarrow> response" where
  "Write p w = (let w' = WriteHeader 200 w in w'\<lparr>body := body w' @ [p]\<rparr>)"

definition http_Error :: "response \<Rightarrow> string \<Rightarrow> nat \<Rightarrow> response" where
  "http_Error w err code =
     Write (Line err)
       (WriteHeader code
         (header_Set ''X-Content-Type-Options'' ''nosniff''
           (header_Set ''Content-Type'' ''text/plain; charset=utf-8''
             (header_Del ''Content-Length'' w))))"

definition json_Encode :: "json \<Rightarrow> response \<Rightarrow> response" where
  "json_Encode v w = Write (JsonDoc v) w"

text \<open>
  A handler transforms the response writer and the world behind it (the database
  connection and whatever else a handler reaches).
\<close>

type_synonym 'w handler = "response \<Rightarrow> request \<Rightarrow> 'w \<Rightarrow> response \<times> 'w"

section \<open>enableCORS\<close>

definition enableCORS :: "'w handler \<Rightarrow> 'w handler" where
  "enableCORS next w r s =
     (let w1 = header_Set ''Access-Control-Allow-Origin'' ''*'' w;
          w2 = header_Set ''Access-Control-Allow-Methods'' ''POST, GET, OPTIONS, PUT, DELETE'' w1;
          w3 = header_Set ''Access-Control-Allow-Headers''
                 ''Accept, Content-Type, Content-Length, Accept-Encoding, X-CSRF-Token, Authorization'' w2
      in if Method r = ''OPTIONS'' then (WriteHeader 200 w3, s)
         else next w3 r s)"

section \<open>Go's \<open>int\<close>, \<open>strconv.Atoi\<close> and number formatting\<close>

text \<open>\<open>int\<close> is 64 bits wide on the platforms the service is built for.\<close>

definition in_int :: "int \<Rightarrow> bool" where
  "in_int n \<longleftrightarrow> - (2 ^ 63) \<le> n \<and> n < 2 ^ 63"

definition is_digit :: "char \<Rightarrow> bool" where
  "is_digit c \<longleftrightarrow> 48 \<le> (of_char c :: nat) \<and> (of_char c :: nat) \<le> 57"

fun digits_val :: "string \<Rightarrow> nat \<Rightarrow> nat" where
  "digits_val [] acc = acc"
| "digits_val (c # cs) acc = digits_val cs (acc * 10 + (of_char c - 48))"

text \<open>
  \<open>strconv.ParseInt(s, 10, 64)\<close>: an optional sign, then at least one decimal digit and
  nothing else; a value outside the 64-bit range is an error as well.
\<close>

definition ParseInt :: "string \<Rightarrow> go_error + int" where
  "ParseInt s =
     (case s of
        [] \<Rightarrow> Inl ''invalid syntax''
      | c # cs \<Rightarrow>
          (let neg = (c = CHR ''-'');
               ds = (if c = CHR ''+'' \<or> c = CHR ''-'' then cs else s)
           in if ds = [] \<or> \<not> list_all is_digit ds then Inl ''invalid syntax''
              else (let n = int (digits_val ds 0);
                        v = (if neg then - n else n)
                    in if in_int v then Inr v else Inl ''value out of range'')))"

definition Atoi :: "string \<Rightarrow> go_error + int" where
  "Atoi s =
     (case ParseInt s of
        Inl e \<Rightarrow> Inl (''strconv.Atoi: parsing '' @ s @ '': '' @ e)
      | Inr v \<Rightarrow> Inr v)"

fun show_nat :: "nat \<Rightarrow> string" where
  "show_nat n =
     (if n < 10 then [char_of (48 + n)]
      else show_nat (n div 10) @ [char_of (48 + n mod 10)])"

declare show_nat.simps [simp del]

definition show_int :: "int \<Rightarrow> string" where
  "show_int i = (if i < 0 then CHR ''-'' # show_nat (nat (- i)) else show_nat (nat i))"

section \<open>Decoding the body of POST /favorites\<close>

definition to_lower :: "char \<Rightarrow> char" where
  "to_lower c =
     (if 65 \<le> (of_char c :: nat) \<and> (of_char c :: nat) \<le> 90
      then char_of ((of_char c :: nat) + 32) else c)"

text \<open>
  \<open>encoding/json\<close> matches an object key to a struct field ignoring case. The only
  characters whose case folding leaves ASCII are \<open>k\<close> and \<open>s\<close>, neither of which occurs
  in \<open>item_id\<close>, so folding ASCII letters is all that is needed here.
\<close>

definition equal_fold :: "string \<Rightarrow> string \<Rightarrow> bool" where
  "equal_fold a b \<longleftrightarrow> map to_lower a = map to_lower b"

definition json_kind :: "json \<Rightarrow> string" where
  "json_kind j =
     (case j of
        JNull \<Rightarrow> ''null''
      | JBool b \<Rightarrow> ''bool''
      | JInt n \<Rightarrow> ''number '' @ show_int n
      | JFrac t \<Rightarrow> ''number '' @ t
      | JStr t \<Rightarrow> ''string''
      | JArr xs \<Rightarrow> ''array''
      | JObj fs \<Rightarrow> ''object'')"

text \<open>
  Storing a JSON value into the field \<open>ItemID int\<close>: \<open>null\<close> leaves the field as it is,
  an integer literal in range is stored, everything else is an \<open>UnmarshalTypeError\<close>.
\<close>

definition store_ItemID :: "json \<Rightarrow> int \<Rightarrow> go_error + int" where
  "store_ItemID j cur =
     (case j of
        JNull \<Rightarrow> Inr cur
      | JInt n \<Rightarrow>
          if in_int n then Inr n
          else Inl (''json: cannot unmarshal '' @ json_kind j @ '' into Go struct field .item_id of type int'')
      | _ \<Rightarrow> Inl (''json: cannot unmarshal '' @ json_kind j @ '' into Go struct field .item_id of type int''))"

text \<open>
  The members of the object in order: a later duplicate overwrites an earlier one, an
  unknown key is skipped, and the decoder goes on after a type error, keeping the first.
\<close>

fun decode_fields :: "(string \<times> json) list \<Rightarrow> int \<Rightarrow> go_error option \<Rightarrow> int \<times> go_error option" where
  "decode_fields [] v e = (v, e)"
| "decode_fields ((k, j) # fs) v e =
     (if equal_fold k ''item_id'' then
        (case store_ItemID j v of
           Inl err \<Rightarrow> decode_fields fs v (if e = None then Some err else e)
         | Inr v' \<Rightarrow> decode_fields fs v' e)
      else decode_fields fs v e)"

text \<open>
  \<open>Decode(&data)\<close> for \<open>data struct { ItemID int `json:"item_id"` }\<close>, starting from
  the zero value. The result is the decoded \<open>data.ItemID\<close>.
\<close>

definition Decode :: "req_body \<Rightarrow> go_error + int" where
  "Decode b =
     (case b of
        Malformed e \<Rightarrow> Inl e
      | Document j \<Rightarrow>
          (case j of
             JObj fs \<Rightarrow>
               (case decode_fields fs 0 None of
                  (v, None) \<Rightarrow> Inr v
                | (v, Some e) \<Rightarrow> Inl e)
           | JNull \<Rightarrow> Inr 0
           | _ \<Rightarrow> Inl (''json: cannot unmarshal '' @ json_kind j @ '' into Go value of type struct'')))"

section \<open>The database handle\<close>

datatype sql_value = SqlNull | SqlInt int | SqlText string | SqlBool bool

type_synonym sql_row = "sql_value list"

text \<open>
  What stands behind \<open>*sql.DB\<close>: a query yields an error or the rows the cursor delivers
  before \<open>rows.Next()\<close> returns false (the handlers never look at \<open>rows.Err()\<close>, so why
  the iteration ended is invisible to them); a statement yields an error or the number
  of rows affected.
\<close>

record 's driver =
  drv_Query :: "string \<Rightarrow> sql_value list \<Rightarrow> 's \<Rightarrow> (go_error + sql_row list) \<times> 's"
  drv_Exec :: "string \<Rightarrow> sql_value list \<Rightarrow> 's \<Rightarrow> (go_error + nat) \<times> 's"

text \<open>The connection: the state of the store and the statements sent to it so far.\<close>

record 's conn =
  store :: 's
  issued :: "(string \<times> sql_value list) list"

definition db_Query ::
  "'s driver \<Rightarrow> string \<Rightarrow> sql_value list \<Rightarrow> 's conn \<Rightarrow> (go_error + sql_row list) \<times> 's conn" where
  "db_Query db q args c =
     (case drv_Query db q args (store c) of
        (res, s') \<Rightarrow> (res, \<lparr>store = s', issued = issued c @ [(q, args)]\<rparr>))"

definition db_Exec ::
  "'s driver \<Rightarrow> string \<Rightarrow> sql_value list \<Rightarrow> 's conn \<Rightarrow> (go_error + nat) \<times> 's conn" where
  "db_Exec db q args c =
     (case drv_Exec db q args (store c) of
        (res, s') \<Rightarrow> (res, \<lparr>store = s', issued = issued c @ [(q, args)]\<rparr>))"

subsection \<open>rows.Scan\<close>

definition format_value :: "sql_value \<Rightarrow> string" where
  "format_value v =
     (case v of
        SqlNull \<Rightarrow> []
      | SqlInt n \<Rightarrow> show_int n
      | SqlText t \<Rightarrow> t
      | SqlBool b \<Rightarrow> (if b then ''true'' else ''false''))"

text \<open>The conversions of \<open>database/sql\<close> into the destination types the handlers use.\<close>

definition scan_string :: "sql_value \<Rightarrow> go_error + string" where
  "scan_string v =
     (case v of
        SqlNull \<Rightarrow> Inl ''converting NULL to string is unsupported''
      | _ \<Rightarrow> Inr (format_value v))"

definition scan_int :: "sql_value \<Rightarrow> go_error + int" where
  "scan_int v =
     (case v of
        SqlNull \<Rightarrow> Inl ''converting NULL to int is unsupported''
      | SqlInt n \<Rightarrow>
          if in_int n then Inr n
          else Inl (''converting driver.Value '' @ show_int n @ '' to a int: value out of range'')
      | _ \<Rightarrow>
         (case ParseInt (format_value v) of
            Inl e \<Rightarrow> Inl (''converting driver.Value '' @ format_value v @ '' to a int: '' @ e)
          | Inr n \<Rightarrow> Inr n))"

definition scan_bool :: "sql_value \<Rightarrow> go_error + bool" where
  "scan_bool v =
     (case v of
        SqlBool b \<Rightarrow> Inr b
      | SqlInt n \<Rightarrow>
          if n = 1 then Inr True else if n = 0 then Inr False
          else Inl (''sql/driver: could not convert '' @ show_int n @ '' into type bool'')
      | SqlText t \<Rightarrow>
          if t \<in> set [''1'', ''t'', ''T'', ''TRUE'', ''true'', ''True''] then Inr True
          else if t \<in> set [''0'', ''f'', ''F'', ''FALSE'', ''false'', ''False''] then Inr False
          else Inl (''sql/driver: could not convert '' @ t @ '' into type bool'')
      | SqlNull \<Rightarrow> Inl ''sql/driver: could not convert <nil> into type bool'')"

definition scan_int_ptr :: "sql_value \<Rightarrow> go_error + int option" where
  "scan_int_ptr v =
     (case v of
        SqlNull \<Rightarrow> Inr None
      | _ \<Rightarrow> (case scan_int v of Inl e \<Rightarrow> Inl e | Inr n \<Rightarrow> Inr (Some n)))"

text \<open>
  \<open>Scan\<close> converts column after column and stops at the first that fails; \<open>scan_col\<close>
  is one such step, followed by the rest of the call.
\<close>

definition scan_error :: "nat \<Rightarrow> go_error \<Rightarrow> go_error" where
  "scan_error i e = ''sql: Scan error on column index '' @ show_nat i @ '': '' @ e"

definition scan_col :: "nat \<Rightarrow> go_error + 'a \<Rightarrow> ('a \<Rightarrow> go_error + 'b) \<Rightarrow> go_error + 'b" where
  "scan_col i x f = (case x of Inl e \<Rightarrow> Inl (scan_error i e) | Inr a \<Rightarrow> f a)"

definition scan_arity_error :: "nat \<Rightarrow> nat \<Rightarrow> go_error" where
  "scan_arity_error cols dests =
     ''sql: expected '' @ show_nat cols @ '' destination arguments in Scan, not '' @ show_nat dests"

text \<open>A Go slice that starts out \<open>nil\<close>: \<open>append\<close> allocates it.\<close>

type_synonym 'a slice = "'a list option"

definition go_append :: "'a slice \<Rightarrow> 'a \<Rightarrow> 'a slice" where
  "go_append xs x = (case xs of None \<Rightarrow> Some [x] | Some ys \<Rightarrow> Some (ys @ [x]))"

text \<open>\<open>Encode\<close> writes \<open>null\<close> for a nil slice and for a nil pointer.\<close>

definition json_int_ptr :: "int option \<Rightarrow> json" where
  "json_int_ptr p = (case p of None \<Rightarrow> JNull | Some n \<Rightarrow> JInt n)"

definition json_slice :: "('a \<Rightarrow> json) \<Rightarrow> 'a slice \<Rightarrow> json" where
  "json_slice enc xs = (case xs of None \<Rightarrow> JNull | Some ys \<Rightarrow> JArr (map enc ys))"

section \<open>The handlers\<close>

abbreviation StatusOK :: nat where "StatusOK \<equiv> 200"
abbreviation StatusCreated :: nat where "StatusCreated \<equiv> 201"
abbreviation StatusNoContent :: nat where "StatusNoContent \<equiv> 204"
abbreviation StatusBadRequest :: nat where "StatusBadRequest \<equiv> 400"
abbreviation StatusInternalServerError :: nat where "StatusInternalServerError \<equiv> 500"

subsection \<open>getFavorites\<close>

text \<open>The struct of one element of \<open>favorites\<close> (the loop variable \<open>f\<close>).\<close>

record favorite =
  f_ID :: int
  f_ItemID :: int
  f_Title :: string
  f_Price :: int
  f_ImageURL :: string
  f_IsFavorite :: bool
  f_FavoriteID :: "int option"
  f_IsAdded :: bool

definition json_favorite :: "favorite \<Rightarrow> json" where
  "json_favorite f =
     JObj [(''id'', JInt (f_ID f)),
           (''item_id'', JInt (f_ItemID f)),
           (''title'', JStr (f_Title f)),
           (''price'', JInt (f_Price f)),
           (''image_url'', JStr (f_ImageURL f)),
           (''is_favorite'', JBool (f_IsFavorite f)),
           (''favorite_id'', json_int_ptr (f_FavoriteID f)),
           (''is_added'', JBool (f_IsAdded f))]"

text \<open>
  \<open>rows.Scan(&f.ID, &f.ItemID, &f.Title, &f.Price, &f.ImageURL, &f.IsFavorite,
  &f.FavoriteID, &f.IsAdded)\<close> on one row.
\<close>

definition scan_favorite :: "sql_row \<Rightarrow> go_error + favorite" where
  "scan_favorite row =
     (if length row \<noteq> 8 then Inl (scan_arity_error (length row) 8)
      else
        scan_col 0 (scan_int (row ! 0)) (\<lambda>id.
        scan_col 1 (scan_int (row ! 1)) (\<lambda>item_id.
        scan_col 2 (scan_string (row ! 2)) (\<lambda>title.
        scan_col 3 (scan_int (row ! 3)) (\<lambda>price.
        scan_col 4 (scan_string (row ! 4)) (\<lambda>image_url.
        scan_col 5 (scan_bool (row ! 5)) (\<lambda>is_favorite.
        scan_col 6 (scan_int_ptr (row ! 6)) (\<lambda>favorite_id.
        scan_col 7 (scan_bool (row ! 7)) (\<lambda>is_added.
          Inr \<lparr>f_ID = id, f_ItemID = item_id, f_Title = title, f_Price = price,
               f_ImageURL = image_url, f_IsFavorite = is_favorite,
               f_FavoriteID = favorite_id, f_IsAdded = is_added\<rparr>)))))))))"

text \<open>The loop \<open>for rows.Next() { ... }\<close>: an \<open>Inl\<close> is the early return on a Scan error.\<close>

fun getFavorites_loop :: "sql_row list \<Rightarrow> favorite slice \<Rightarrow> go_error + favorite slice" where
  "getFavorites_loop [] favorites = Inr favorites"
| "getFavorites_loop (row # rows) favorites =
     (case scan_favorite row of
        Inl err \<Rightarrow> Inl err
      | Inr f \<Rightarrow> getFavorites_loop rows (go_append favorites f))"

definition favorites_query :: string where
  "favorites_query =
     [CHR 0x0A] @ ''        SELECT f.id, f.item_id, s.title, s.price, s.imageUrl, s.isFavorite, s.favoriteId, s.isAdded''
     @ [CHR 0x0A] @ ''        FROM favorite f''
     @ [CHR 0x0A] @ ''        INNER JOIN sneakers s ON f.item_id = s.id''"

definition getFavorites :: "'s driver \<Rightarrow> 's conn handler" where
  "getFavorites db w r c =
     (case db_Query db favorites_query [] c of
        (Inl err, c') \<Rightarrow> (http_Error w err StatusInternalServerError, c')
      | (Inr rows, c') \<Rightarrow>
          (case getFavorites_loop rows None of
             Inl err \<Rightarrow> (http_Error w err StatusInternalServerError, c')
           | Inr favorites \<Rightarrow>
               (json_Encode (json_slice json_favorite favorites)
                  (header_Set ''Content-Type'' ''application/json'' w), c')))"

subsection \<open>postFavorite\<close>

definition postFavorite :: "'s driver \<Rightarrow> 's conn handler" where
  "postFavorite db w r c =
     (case Decode (Body r) of
        Inl err \<Rightarrow> (http_Error w err StatusBadRequest, c)
      | Inr ItemID \<Rightarrow>
          (case db_Exec db ''INSERT INTO favorite (item_id) VALUES ($1)'' [SqlInt ItemID] c of
             (Inl err, c') \<Rightarrow> (http_Error w err StatusInternalServerError, c')
           | (Inr affected, c') \<Rightarrow> (WriteHeader StatusCreated w, c')))"

subsection \<open>deleteFavorite\<close>

text \<open>\<open>vars["favoriteId"]\<close>: a missing key of a Go map reads as the empty string.\<close>

definition vars_get :: "(string \<rightharpoonup> string) \<Rightarrow> string \<Rightarrow> string" where
  "vars_get vars k = (case vars k of None \<Rightarrow> [] | Some v \<Rightarrow> v)"

definition deleteFavorite :: "'s driver \<Rightarrow> 's conn handler" where
  "deleteFavorite db w r c =
     (case Atoi (vars_get (Vars r) ''favoriteId'') of
        Inl err \<Rightarrow> (http_Error w ''Invalid favorite ID'' StatusBadRequest, c)
      | Inr favoriteId \<Rightarrow>
          (case db_Exec db ''DELETE FROM favorite WHERE id = $1'' [SqlInt favoriteId] c of
             (Inl err, c') \<Rightarrow> (http_Error w err StatusInternalServerError, c')
           | (Inr affected, c') \<Rightarrow> (WriteHeader StatusNoContent w, c')))"

subsection \<open>getItems\<close>

text \<open>\<open>url.Values.Get\<close>: the first value of the key, the empty string when there is none.\<close>

fun params_Get :: "(string \<times> string) list \<Rightarrow> string \<Rightarrow> string" where
  "params_Get [] key = []"
| "params_Get ((k, v) # ps) key = (if k = key then v else params_Get ps key)"

record item =
  i_ID :: int
  i_Title :: string
  i_Price :: int
  i_ImageURL :: string
  i_IsFavorite :: bool
  i_FavoriteID :: "int option"
  i_IsAdded :: bool

definition json_item :: "item \<Rightarrow> json" where
  "json_item i =
     JObj [(''id'', JInt (i_ID i)),
           (''title'', JStr (i_Title i)),
           (''price'', JInt (i_Price i)),
           (''image_url'', JStr (i_ImageURL i)),
           (''is_favorite'', JBool (i_IsFavorite i)),
           (''favorite_id'', json_int_ptr (i_FavoriteID i)),
           (''is_added'', JBool (i_IsAdded i))]"

definition scan_item :: "sql_row \<Rightarrow> go_error + item" where
  "scan_item row =
     (if length row \<noteq> 7 then Inl (scan_arity_error (length row) 7)
      else
        scan_col 0 (scan_int (row ! 0)) (\<lambda>id.
        scan_col 1 (scan_string (row ! 1)) (\<lambda>title.
        scan_col 2 (scan_int (row ! 2)) (\<lambda>price.
        scan_col 3 (scan_string (row ! 3)) (\<lambda>image_url.
        scan_col 4 (scan_bool (row ! 4)) (\<lambda>is_favorite.
        scan_col 5 (scan_int_ptr (row ! 5)) (\<lambda>favorite_id.
        scan_col 6 (scan_bool (row ! 6)) (\<lambda>is_added.
          Inr \<lparr>i_ID = id, i_Title = title, i_Price = price, i_ImageURL = image_url,
               i_IsFavorite = is_favorite, i_FavoriteID = favorite_id,
               i_IsAdded = is_added\<rparr>))))))))"

fun getItems_loop :: "sql_row list \<Rightarrow> item slice \<Rightarrow> go_error + item slice" where
  "getItems_loop [] items = Inr items"
| "getItems_loop (row # rows) items =
     (case scan_item row of
        Inl err \<Rightarrow> Inl err
      | Inr i \<Rightarrow> getItems_loop rows (go_append items i))"

definition getItems :: "'s driver \<Rightarrow> 's conn handler" where
  "getItems db w r c =
     (let params = Query_params r;
          sortBy = params_Get params ''sortBy'';
          searchQuery = params_Get params ''title'';
          query0 = ''SELECT * FROM sneakers'';
          query1 = (if searchQuery \<noteq> [] then query0 @ '' WHERE title ILIKE $1'' else query0);
          query = (if sortBy \<noteq> [] then query1 @ '' ORDER BY '' @ sortBy else query1)
      in case (if searchQuery \<noteq> []
               then db_Query db query [SqlText (''%'' @ searchQuery @ ''%'')] c
               else db_Query db query [] c) of
           (Inl err, c') \<Rightarrow> (http_Error w err StatusInternalServerError, c')
         | (Inr rows, c') \<Rightarrow>
             (case getItems_loop rows None of
                Inl err \<Rightarrow> (http_Error w err StatusInternalServerError, c')
              | Inr items \<Rightarrow>
                  (json_Encode (json_slice json_item items)
                     (header_Set ''Content-Type'' ''application/json'' w), c')))"

text \<open>
  The statement of \<open>getItems\<close> in the words of the specification: the base query,
  the title filter when \<open>title\<close> is not empty, the raw \<open>sortBy\<close> after \<open>ORDER BY\<close> when
  \<open>sortBy\<close> is not empty; the only bound parameter is the title wrapped in \<open>%\<close>.
\<close>

definition spec_items_query :: "string \<Rightarrow> string \<Rightarrow> string" where
  "spec_items_query title sortBy =
     ''SELECT * FROM sneakers''
     @ (if title \<noteq> [] then '' WHERE title ILIKE $1'' else [])
     @ (if sortBy \<noteq> [] then '' ORDER BY '' @ sortBy else [])"

definition spec_items_args :: "string \<Rightarrow> sql_value list" where
  "spec_items_args title = (if title \<noteq> [] then [SqlText (''%'' @ title @ ''%'')] else [])"

section \<open>The relational store behind the statements\<close>

text \<open>
  Modelled from the spec: the declarations of the two relations are not part of the
  repository. Their columns are those of the data model, \<open>favorite(id, item_id)\<close> and
  \<open>sneakers(id, title, price, imageUrl, isFavorite, favoriteId, isAdded)\<close>, where only
  \<open>favoriteId\<close> is nullable and the store generates \<open>favorite.id\<close>.
\<close>

record sneaker_row =
  s_id :: int
  s_title :: string
  s_price :: int
  s_imageUrl :: string
  s_isFavorite :: bool
  s_favoriteId :: "int option"
  s_isAdded :: bool

record favorite_row =
  fav_id :: int
  fav_item_id :: int

text \<open>
  The state of the store: the two tables, the sequence that generates \<open>favorite.id\<close>,
  and whether \<open>favorite.item_id\<close> is declared as a foreign key into \<open>sneakers\<close>.
\<close>

record database =
  sneakers_tbl :: "sneaker_row list"
  favorite_tbl :: "favorite_row list"
  favorite_seq :: int
  fk_enforced :: bool

definition sql_int_opt :: "int option \<Rightarrow> sql_value" where
  "sql_int_opt p = (case p of None \<Rightarrow> SqlNull | Some n \<Rightarrow> SqlInt n)"

text \<open>\<open>SELECT *\<close> delivers the columns in the order of their declaration.\<close>

definition sneaker_cols :: "sneaker_row \<Rightarrow> sql_row" where
  "sneaker_cols s =
     [SqlInt (s_id s), SqlText (s_title s), SqlInt (s_price s), SqlText (s_imageUrl s),
      SqlBool (s_isFavorite s), sql_int_opt (s_favoriteId s), SqlBool (s_isAdded s)]"

text \<open>
  \<open>FROM favorite f INNER JOIN sneakers s ON f.item_id = s.id\<close>: one row for every pair
  of a favorite and a sneaker it references.
\<close>

definition join_cols :: "favorite_row \<Rightarrow> sneaker_row \<Rightarrow> sql_row" where
  "join_cols f s =
     [SqlInt (fav_id f), SqlInt (fav_item_id f), SqlText (s_title s), SqlInt (s_price s),
      SqlText (s_imageUrl s), SqlBool (s_isFavorite s), sql_int_opt (s_favoriteId s),
      SqlBool (s_isAdded s)]"

definition join_pairs :: "database \<Rightarrow> (favorite_row \<times> sneaker_row) list" where
  "join_pairs d =
     concat (map (\<lambda>f. map (Pair f) (filter (\<lambda>s. fav_item_id f = s_id s) (sneakers_tbl d)))
                 (favorite_tbl d))"

definition favorites_join :: "database \<Rightarrow> sql_row list" where
  "favorites_join d = map (\<lambda>(f, s). join_cols f s) (join_pairs d)"

subsection \<open>ILIKE\<close>

text \<open>
  The pattern language of \<open>LIKE\<close>: \<open>%\<close> stands for any sequence of characters, \<open>_\<close> for
  any one character, and a backslash makes the character after it stand for itself.
\<close>

fun like :: "string \<Rightarrow> string \<Rightarrow> bool" where
  "like [] t = (t = [])"
| "like (p # ps) [] = (p = CHR ''%'' \<and> like ps [])"
| "like (p # ps) (c # cs) =
     (if p = CHR ''%'' then like ps (c # cs) \<or> like (p # ps) cs
      else if p = CHR 0x5C then (case ps of [] \<Rightarrow> False | q # qs \<Rightarrow> q = c \<and> like qs cs)
      else (p = CHR ''_'' \<or> p = c) \<and> like ps cs)"

text \<open>
  A pattern whose last character is an unpaired backslash is rejected by the store
  (``LIKE pattern must not end with escape character'').
\<close>

fun ends_in_escape :: "string \<Rightarrow> bool" where
  "ends_in_escape [] = False"
| "ends_in_escape [p] = (p = CHR 0x5C)"
| "ends_in_escape (p # q # ps) =
     (if p = CHR 0x5C then ends_in_escape ps else ends_in_escape (q # ps))"

text \<open>
  \<open>ILIKE\<close> compares without regard to case; letters outside ASCII are left as they
  are here.
\<close>

definition ilike :: "string \<Rightarrow> string \<Rightarrow> bool" where
  "ilike pat t = like (map to_lower pat) (map to_lower t)"


subsection \<open>The statements of the handlers as a driver\<close>

text \<open>
  The four statement texts the handlers send without an \<open>ORDER BY\<close>, with the meaning
  they have in PostgreSQL. Every other statement (in particular one with a
  caller-supplied \<open>ORDER BY\<close>) is passed on to \<open>other\<close>, about which nothing is assumed.
\<close>

definition pg_Query ::
  "database driver \<Rightarrow> string \<Rightarrow> sql_value list \<Rightarrow> database \<Rightarrow> (go_error + sql_row list) \<times> database" where
  "pg_Query other q args d =
     (if q = favorites_query \<and> args = [] then (Inr (favorites_join d), d)
      else if q = ''SELECT * FROM sneakers'' \<and> args = [] then
        (Inr (map sneaker_cols (sneakers_tbl d)), d)
      else if q = ''SELECT * FROM sneakers WHERE title ILIKE $1'' then
        (case args of
           [SqlText pat] \<Rightarrow>
             if ends_in_escape pat
             then (Inl ''pq: LIKE pattern must not end with escape character'', d)
             else (Inr (map sneaker_cols (filter (\<lambda>s. ilike pat (s_title s)) (sneakers_tbl d))), d)
         | _ \<Rightarrow> drv_Query other q args d)
      else drv_Query other q args d)"

definition pg_Exec ::
  "database driver \<Rightarrow> string \<Rightarrow> sql_value list \<Rightarrow> database \<Rightarrow> (go_error + nat) \<times> database" where
  "pg_Exec other q args d =
     (if q = ''INSERT INTO favorite (item_id) VALUES ($1)'' then
        (case args of
           [SqlInt i] \<Rightarrow>
             if fk_enforced d \<and> i \<notin> set (map s_id (sneakers_tbl d))
             then (Inl ''pq: insert or update on table favorite violates foreign key constraint'', d)
             else (Inr 1,
                   d\<lparr>favorite_tbl := favorite_tbl d @ [\<lparr>fav_id = favorite_seq d, fav_item_id = i\<rparr>],
                     favorite_seq := favorite_seq d + 1\<rparr>)
         | _ \<Rightarrow> drv_Exec other q args d)
      else if q = ''DELETE FROM favorite WHERE id = $1'' then
        (case args of
           [SqlInt n] \<Rightarrow>
             (Inr (length (filter (\<lambda>f. fav_id f = n) (favorite_tbl d))),
              d\<lparr>favorite_tbl := filter (\<lambda>f. fav_id f \<noteq> n) (favorite_tbl d)\<rparr>)
         | _ \<Rightarrow> drv_Exec other q args d)
      else drv_Exec other q args d)"

definition pg :: "database driver \<Rightarrow> database driver" where
  "pg other = \<lparr>drv_Query = pg_Query other, drv_Exec = pg_Exec other\<rparr>"

text \<open>A driver that knows no statement, to close \<open>pg\<close> where one is needed.\<close>

definition no_other :: "database driver" where
  "no_other =
     \<lparr>drv_Query = (\<lambda>q args d. (Inl (''pq: unsupported statement: '' @ q), d)),
      drv_Exec = (\<lambda>q args d. (Inl (''pq: unsupported statement: '' @ q), d))\<rparr>"

text \<open>
  The values of the store are those of 64-bit integer columns, and \<open>sneakers.id\<close> is
  the key of its table.
\<close>

definition sneaker_ok :: "sneaker_row \<Rightarrow> bool" where
  "sneaker_ok s \<longleftrightarrow>
     in_int (s_id s) \<and> in_int (s_price s) \<and>
     (case s_favoriteId s of None \<Rightarrow> True | Some n \<Rightarrow> in_int n)"

definition favorite_ok :: "favorite_row \<Rightarrow> bool" where
  "favorite_ok f \<longleftrightarrow> in_int (fav_id f) \<and> in_int (fav_item_id f)"

definition database_ok :: "database \<Rightarrow> bool" where
  "database_ok d \<longleftrightarrow>
     distinct (map s_id (sneakers_tbl d)) \<and>
     list_all sneaker_ok (sneakers_tbl d) \<and>
     list_all favorite_ok (favorite_tbl d) \<and>
     in_int (favorite_seq d)"

text \<open>
  The Go values a row of the store is scanned into: the element of \<open>favorites\<close> for a
  favorite joined with its sneaker, and the element of \<open>items\<close> for a sneaker.
\<close>

definition joined :: "favorite_row \<times> sneaker_row \<Rightarrow> favorite" where
  "joined p =
     \<lparr>f_ID = fav_id (fst p), f_ItemID = fav_item_id (fst p), f_Title = s_title (snd p),
      f_Price = s_price (snd p), f_ImageURL = s_imageUrl (snd p),
      f_IsFavorite = s_isFavorite (snd p), f_FavoriteID = s_favoriteId (snd p),
      f_IsAdded = s_isAdded (snd p)\<rparr>"


text \<open>What the loops make of the results scanned from a query, starting from \<open>nil\<close>.\<close>

definition slice_of :: "'a list \<Rightarrow> 'a slice" where
  "slice_of xs = (if xs = [] then None else Some xs)"

section \<open>Concrete requests, stores and drivers\<close>

definition example_db :: database where
  "example_db =
     \<lparr>sneakers_tbl =
        [\<lparr>s_id = 1, s_title = ''Air Max'', s_price = 12999, s_imageUrl = ''/img/1.jpg'',
          s_isFavorite = False, s_favoriteId = None, s_isAdded = False\<rparr>,
         \<lparr>s_id = 2, s_title = ''Classic Runner'', s_price = 8999, s_imageUrl = ''/img/2.jpg'',
          s_isFavorite = True, s_favoriteId = Some 1, s_isAdded = False\<rparr>],
      favorite_tbl = [\<lparr>fav_id = 1, fav_item_id = 2\<rparr>],
      favorite_seq = 2,
      fk_enforced = True\<rparr>"

definition example_conn :: "database conn" where
  "example_conn = \<lparr>store = example_db, issued = []\<rparr>"

text \<open>A request with the given method and nothing else.\<close>

definition plain_request :: "string \<Rightarrow> request" where
  "plain_request m = \<lparr>Method = m, Vars = Map.empty, Query_params = [], Body = Malformed ''EOF''\<rparr>"

text \<open>A store that cannot be reached: every call fails.\<close>

definition unreachable :: "unit driver" where
  "unreachable =
     \<lparr>drv_Query = (\<lambda>q args u. (Inl ''dial tcp 127.0.0.1:5432: connect: connection refused'', u)),
      drv_Exec = (\<lambda>q args u. (Inl ''dial tcp 127.0.0.1:5432: connect: connection refused'', u))\<rparr>"

text \<open>A handler that counts its calls in the world.\<close>

definition counting :: "nat handler" where
  "counting w r n = (WriteHeader 200 w, Suc n)"


definition no_conn :: "unit conn" where
  "no_conn = \<lparr>store = (), issued = []\<rparr>"

text \<open>The store with both tables empty.\<close>

definition empty_db :: database where
  "empty_db = \<lparr>sneakers_tbl = [], favorite_tbl = [], favorite_seq = 1, fk_enforced = True\<rparr>"

text \<open>The request \<open>POST /favorites\<close> with the given body.\<close>

definition post_request :: "json \<Rightarrow> request" where
  "post_request j = \<lparr>Method = ''POST'', Vars = Map.empty, Query_params = [], Body = Document j\<rparr>"

text \<open>The request \<open>GET /items\<close> with the given query parameters.\<close>

definition items_request :: "(string \<times> string) list \<Rightarrow> request" where
  "items_request ps = \<lparr>Method = ''GET'', Vars = Map.empty, Query_params = ps, Body = Malformed ''EOF''\<rparr>"



section \<open>The response writer on a fresh response\<close>

lemma http_Error_fresh:
  "status (http_Error (fresh h) e code) = Some code"
  "body (http_Error (fresh h) e code) = [Line e]"
  "header (http_Error (fresh h) e code) ''Content-Type'' = Some ''text/plain; charset=utf-8''"
  by (simp_all add: http_Error_def Write_def WriteHeader_def header_Set_def header_Del_def fresh_def)

lemma WriteHeader_fresh:
  "status (WriteHeader code (fresh h)) = Some code"
  "body (WriteHeader code (fresh h)) = []"
  "header (WriteHeader code (fresh h)) = h"
  by (simp_all add: WriteHeader_def fresh_def)

lemma json_Encode_fresh:
  "status (json_Encode v (header_Set k x (fresh h))) = Some 200"
  "body (json_Encode v (header_Set k x (fresh h))) = [JsonDoc v]"
  "header (json_Encode v (header_Set k x (fresh h))) = h(k \<mapsto> x)"
  by (simp_all add: json_Encode_def Write_def WriteHeader_def header_Set_def fresh_def)

section \<open>What each handler does, by the answer of the store\<close>

lemma db_Query_eq:
  "drv_Query db q a (store c) = (res, s') \<Longrightarrow>
   db_Query db q a c = (res, \<lparr>store = s', issued = issued c @ [(q, a)]\<rparr>)"
  by (simp add: db_Query_def)

lemma db_Exec_eq:
  "drv_Exec db q a (store c) = (res, s') \<Longrightarrow>
   db_Exec db q a c = (res, \<lparr>store = s', issued = issued c @ [(q, a)]\<rparr>)"
  by (simp add: db_Exec_def)

lemma issued_db_Query: "issued (snd (db_Query db q a c)) = issued c @ [(q, a)]"
  by (simp add: db_Query_def split: prod.splits)

lemma issued_db_Exec: "issued (snd (db_Exec db q a c)) = issued c @ [(q, a)]"
  by (simp add: db_Exec_def split: prod.splits)

subsection \<open>getFavorites\<close>



lemma getFavorites_ok:
  assumes "drv_Query db favorites_query [] (store c) = (Inr rows, s')"
    and "getFavorites_loop rows None = Inr favorites"
  shows "getFavorites db w r c =
           (json_Encode (json_slice json_favorite favorites)
              (header_Set ''Content-Type'' ''application/json'' w),
            \<lparr>store = s', issued = issued c @ [(favorites_query, [])]\<rparr>)"
  by (simp add: getFavorites_def db_Query_eq [OF assms(1)] assms(2))



text \<open>
  When every row scans, the loop ends with the scanned rows appended to the slice; the
  slice stays \<open>nil\<close> only when there was no row at all.
\<close>

lemma getFavorites_loop_all:
  assumes "\<forall>row\<in>set rows. scan_favorite row = Inr (g row)"
  shows "getFavorites_loop rows acc =
           Inr (if rows = [] then acc
                else Some ((case acc of None \<Rightarrow> [] | Some ys \<Rightarrow> ys) @ map g rows))"
  using assms
  by (induction rows arbitrary: acc) (auto simp: go_append_def split: option.splits)

subsection \<open>getItems\<close>

lemma snd_respond:
  "snd (case x of (Inl err, c') \<Rightarrow> (f err, c')
               | (Inr rows, c') \<Rightarrow>
                   (case g rows of Inl e \<Rightarrow> (h e, c') | Inr i \<Rightarrow> (k i, c'))) = snd x"
  by (cases x) (auto split: sum.splits)

lemma getItems_query:
  "(if params_Get (Query_params r) ''title'' \<noteq> []
    then db_Query db
           (if params_Get (Query_params r) ''sortBy'' \<noteq> []
            then (if params_Get (Query_params r) ''title'' \<noteq> []
                  then ''SELECT * FROM sneakers'' @ '' WHERE title ILIKE $1''
                  else ''SELECT * FROM sneakers'') @ '' ORDER BY '' @ params_Get (Query_params r) ''sortBy''
            else (if params_Get (Query_params r) ''title'' \<noteq> []
                  then ''SELECT * FROM sneakers'' @ '' WHERE title ILIKE $1''
                  else ''SELECT * FROM sneakers''))
           [SqlText (''%'' @ params_Get (Query_params r) ''title'' @ ''%'')] c
    else db_Query db
           (if params_Get (Query_params r) ''sortBy'' \<noteq> []
            then (if params_Get (Query_params r) ''title'' \<noteq> []
                  then ''SELECT * FROM sneakers'' @ '' WHERE title ILIKE $1''
                  else ''SELECT * FROM sneakers'') @ '' ORDER BY '' @ params_Get (Query_params r) ''sortBy''
            else (if params_Get (Query_params r) ''title'' \<noteq> []
                  then ''SELECT * FROM sneakers'' @ '' WHERE title ILIKE $1''
                  else ''SELECT * FROM sneakers''))
           [] c)
   = db_Query db
       (spec_items_query (params_Get (Query_params r) ''title'') (params_Get (Query_params r) ''sortBy''))
       (spec_items_args (params_Get (Query_params r) ''title'')) c"
  by (simp add: spec_items_query_def spec_items_args_def)

lemma getItems_unfold:
  "getItems db w r c =
     (case db_Query db
             (spec_items_query (params_Get (Query_params r) ''title'')
                               (params_Get (Query_params r) ''sortBy''))
             (spec_items_args (params_Get (Query_params r) ''title'')) c of
        (Inl err, c') \<Rightarrow> (http_Error w err 500, c')
      | (Inr rows, c') \<Rightarrow>
          (case getItems_loop rows None of
             Inl err \<Rightarrow> (http_Error w err 500, c')
           | Inr items \<Rightarrow>
               (json_Encode (json_slice json_item items)
                  (header_Set ''Content-Type'' ''application/json'' w), c')))"
  unfolding getItems_def Let_def getItems_query ..



lemma getItems_ok:
  assumes "drv_Query db (spec_items_query (params_Get (Query_params r) ''title'')
                                           (params_Get (Query_params r) ''sortBy''))
             (spec_items_args (params_Get (Query_params r) ''title'')) (store c) = (Inr rows, s')"
    and "getItems_loop rows None = Inr items"
  shows "getItems db w r c =
           (json_Encode (json_slice json_item items)
              (header_Set ''Content-Type'' ''application/json'' w),
            \<lparr>store = s',
             issued = issued c @
               [(spec_items_query (params_Get (Query_params r) ''title'')
                                  (params_Get (Query_params r) ''sortBy''),
                 spec_items_args (params_Get (Query_params r) ''title''))]\<rparr>)"
  by (simp add: getItems_unfold db_Query_eq [OF assms(1)] assms(2))




subsection \<open>postFavorite and deleteFavorite\<close>


lemma postFavorite_insert_failed:
  assumes "Decode (Body r) = Inr i"
    and "drv_Exec db ''INSERT INTO favorite (item_id) VALUES ($1)'' [SqlInt i] (store c) = (Inl e, s')"
  shows "postFavorite db w r c =
           (http_Error w e 500,
            \<lparr>store = s',
             issued = issued c @ [(''INSERT INTO favorite (item_id) VALUES ($1)'', [SqlInt i])]\<rparr>)"
  by (simp add: postFavorite_def assms(1) db_Exec_eq [OF assms(2)])

lemma postFavorite_inserted:
  assumes "Decode (Body r) = Inr i"
    and "drv_Exec db ''INSERT INTO favorite (item_id) VALUES ($1)'' [SqlInt i] (store c) = (Inr n, s')"
  shows "postFavorite db w r c =
           (WriteHeader 201 w,
            \<lparr>store = s',
             issued = issued c @ [(''INSERT INTO favorite (item_id) VALUES ($1)'', [SqlInt i])]\<rparr>)"
  by (simp add: postFavorite_def assms(1) db_Exec_eq [OF assms(2)])

lemma postFavorite_issued:
  "Decode (Body r) = Inr i \<Longrightarrow>
   issued (snd (postFavorite db w r c)) =
     issued c @ [(''INSERT INTO favorite (item_id) VALUES ($1)'', [SqlInt i])]"
  by (cases "drv_Exec db ''INSERT INTO favorite (item_id) VALUES ($1)'' [SqlInt i] (store c)")
     (auto simp: postFavorite_def db_Exec_def split: sum.splits)

lemma deleteFavorite_bad_id:
  "Atoi (vars_get (Vars r) ''favoriteId'') = Inl e \<Longrightarrow>
   deleteFavorite db w r c = (http_Error w ''Invalid favorite ID'' 400, c)"
  by (simp add: deleteFavorite_def)

lemma deleteFavorite_delete_failed:
  assumes "Atoi (vars_get (Vars r) ''favoriteId'') = Inr n"
    and "drv_Exec db ''DELETE FROM favorite WHERE id = $1'' [SqlInt n] (store c) = (Inl e, s')"
  shows "deleteFavorite db w r c =
           (http_Error w e 500,
            \<lparr>store = s', issued = issued c @ [(''DELETE FROM favorite WHERE id = $1'', [SqlInt n])]\<rparr>)"
  by (simp add: deleteFavorite_def assms(1) db_Exec_eq [OF assms(2)])

lemma deleteFavorite_deleted:
  assumes "Atoi (vars_get (Vars r) ''favoriteId'') = Inr n"
    and "drv_Exec db ''DELETE FROM favorite WHERE id = $1'' [SqlInt n] (store c) = (Inr k, s')"
  shows "deleteFavorite db w r c =
           (WriteHeader 204 w,
            \<lparr>store = s', issued = issued c @ [(''DELETE FROM favorite WHERE id = $1'', [SqlInt n])]\<rparr>)"
  by (simp add: deleteFavorite_def assms(1) db_Exec_eq [OF assms(2)])

lemma decode_fields_no_key:
  "\<forall>(k, j)\<in>set fs. \<not> equal_fold k ''item_id'' \<Longrightarrow> decode_fields fs v e = (v, e)"
  by (induction fs arbitrary: v e) auto

section \<open>The statements of the store\<close>

lemma pg_insert:
  "drv_Exec (pg other) ''INSERT INTO favorite (item_id) VALUES ($1)'' [SqlInt i] d =
     (if fk_enforced d \<and> i \<notin> set (map s_id (sneakers_tbl d))
      then (Inl ''pq: insert or update on table favorite violates foreign key constraint'', d)
      else (Inr 1,
            d\<lparr>favorite_tbl := favorite_tbl d @ [\<lparr>fav_id = favorite_seq d, fav_item_id = i\<rparr>],
              favorite_seq := favorite_seq d + 1\<rparr>))"
  by (simp add: pg_def pg_Exec_def)

lemma pg_delete:
  "drv_Exec (pg other) ''DELETE FROM favorite WHERE id = $1'' [SqlInt n] d =
     (Inr (length (filter (\<lambda>f. fav_id f = n) (favorite_tbl d))),
      d\<lparr>favorite_tbl := filter (\<lambda>f. fav_id f \<noteq> n) (favorite_tbl d)\<rparr>)"
  by (simp add: pg_def pg_Exec_def)

lemma pg_favorites:
  "drv_Query (pg other) favorites_query [] d = (Inr (favorites_join d), d)"
  by (simp add: pg_def pg_Query_def)

lemma pg_items_all:
  "drv_Query (pg other) ''SELECT * FROM sneakers'' [] d = (Inr (map sneaker_cols (sneakers_tbl d)), d)"
  by (simp add: pg_def pg_Query_def favorites_query_def)


section \<open>Scanning the rows of the store\<close>

lemma scan_favorite_joined:
  assumes "favorite_ok f" "sneaker_ok s"
  shows "scan_favorite (join_cols f s) = Inr (joined (f, s))"
  using assms
  by (cases "s_favoriteId s")
     (simp_all add: scan_favorite_def join_cols_def scan_col_def scan_int_def scan_string_def
        scan_bool_def scan_int_ptr_def sql_int_opt_def format_value_def favorite_ok_def
        sneaker_ok_def joined_def)


lemma getFavorites_loop_map:
  assumes "\<forall>x\<in>set xs. scan_favorite (c x) = Inr (g x)"
  shows "getFavorites_loop (map c xs) None = Inr (slice_of (map g xs))"
proof -
  have "\<forall>row\<in>set (map c xs). scan_favorite row = Inr ((\<lambda>row. projr (scan_favorite row)) row)"
    using assms by auto
  from getFavorites_loop_all [OF this, of None]
  have "getFavorites_loop (map c xs) None =
          Inr (if xs = [] then None else Some (map (\<lambda>x. projr (scan_favorite (c x))) xs))"
    by (simp add: comp_def)
  moreover have "map (\<lambda>x. projr (scan_favorite (c x))) xs = map g xs"
    using assms by simp
  ultimately show ?thesis by (simp add: slice_of_def)
qed


lemma join_pairs_members:
  "p \<in> set (join_pairs d) \<Longrightarrow> fst p \<in> set (favorite_tbl d) \<and> snd p \<in> set (sneakers_tbl d)"
  by (auto simp: join_pairs_def)

lemma join_pairs_insert:
  "join_pairs (d\<lparr>favorite_tbl := favorite_tbl d @ [nf], favorite_seq := n\<rparr>) =
     join_pairs d @ map (Pair nf) (filter (\<lambda>s. fav_item_id nf = s_id s) (sneakers_tbl d))"
  by (simp add: join_pairs_def)

lemma filter_key:
  "distinct (map key xs) \<Longrightarrow> i \<in> set (map key xs) \<Longrightarrow>
   \<exists>x. filter (\<lambda>s. i = key s) xs = [x] \<and> x \<in> set xs \<and> key x = i"
proof (induction xs)
  case Nil
  then show ?case by simp
next
  case (Cons a xs)
  show ?case
  proof (cases "key a = i")
    case True
    with Cons.prems have "\<forall>s\<in>set xs. i \<noteq> key s" by auto
    then have "filter (\<lambda>s. i = key s) xs = []" by (simp add: filter_empty_conv)
    with True show ?thesis by auto
  next
    case False
    with Cons.prems have "distinct (map key xs)" "i \<in> set (map key xs)" by auto
    from Cons.IH [OF this] False show ?thesis by auto
  qed
qed

section \<open>Patterns\<close>


lemma like_percent [simp]: "like [CHR ''%''] t"
  by (induction t) auto






section \<open>GET /items with a title on the relational store\<close>


section \<open>The example store\<close>

lemma example_db_ok: "database_ok example_db"
  by (simp add: database_ok_def example_db_def sneaker_ok_def favorite_ok_def in_int_def)



section \<open>The claims about the handlers\<close>

subsection \<open>The query text of GET /items\<close>

text \<open>
  Claim C3. For every request to GET /items, the statement the handler sends is the
  base query \<open>SELECT * FROM sneakers\<close>, followed by \<open> WHERE title ILIKE $1\<close> exactly
  when the \<open>title\<close> parameter is not empty, followed by \<open> ORDER BY \<close> and the raw value of
  \<open>sortBy\<close> exactly when \<open>sortBy\<close> is not empty. The value of \<open>sortBy\<close> is part of the
  text and never a bound parameter: the only parameter is the title between two \<open>%\<close>,
  and it is bound exactly when the title is not empty. This is the one statement the
  handler sends, whatever the store answers.
\<close>

theorem getItems_query_text:
  "issued (snd (getItems db w r c)) =
     issued c @
     [(''SELECT * FROM sneakers''
         @ (if params_Get (Query_params r) ''title'' \<noteq> [] then '' WHERE title ILIKE $1'' else [])
         @ (if params_Get (Query_params r) ''sortBy'' \<noteq> []
            then '' ORDER BY '' @ params_Get (Query_params r) ''sortBy'' else []),
       (if params_Get (Query_params r) ''title'' \<noteq> []
        then [SqlText (''%'' @ params_Get (Query_params r) ''title'' @ ''%'')] else []))]"
  by (simp add: getItems_unfold snd_respond issued_db_Query
        spec_items_query_def spec_items_args_def)

text \<open>
  With \<open>title=air\<close> and \<open>sortBy=price DESC; --\<close> the text after \<open>ORDER BY\<close> is the raw
  value, and the only bound parameter is \<open>%air%\<close>.
\<close>

theorem getItems_query_text_witness:
  "issued (snd (getItems unreachable (fresh Map.empty)
      (items_request [(''title'', ''air''), (''sortBy'', ''price DESC; --'')]) no_conn))
   = [(''SELECT * FROM sneakers WHERE title ILIKE $1 ORDER BY price DESC; --'',
       [SqlText ''%air%''])]"
  using getItems_query_text
          [of unreachable "fresh Map.empty"
              "items_request [(''title'', ''air''), (''sortBy'', ''price DESC; --'')]" no_conn]
  by (simp add: items_request_def no_conn_def)

subsection \<open>The CORS middleware\<close>

text \<open>
  Claim C4. For every request the middleware sets the three Access-Control headers.
  When the method is OPTIONS the response is status 200 with an empty body and the
  three headers, the world is left as it was, and the result is the same for any two
  wrapped handlers: the wrapped handler is not run. For every other method the result
  is that of the wrapped handler, run on the same request and world with a writer that
  differs from the given one in the three headers only.
\<close>

theorem enableCORS_preflight_and_delegation:
  fixes "next" next' :: "'w handler"
  shows
  "(Method r = ''OPTIONS'' \<longrightarrow>
      enableCORS next (fresh h) r s = enableCORS next' (fresh h) r s
    \<and> snd (enableCORS next (fresh h) r s) = s
    \<and> status (fst (enableCORS next (fresh h) r s)) = Some 200
    \<and> body (fst (enableCORS next (fresh h) r s)) = []
    \<and> header (fst (enableCORS next (fresh h) r s)) ''Access-Control-Allow-Origin'' = Some ''*''
    \<and> header (fst (enableCORS next (fresh h) r s)) ''Access-Control-Allow-Methods''
        = Some ''POST, GET, OPTIONS, PUT, DELETE''
    \<and> header (fst (enableCORS next (fresh h) r s)) ''Access-Control-Allow-Headers''
        = Some ''Accept, Content-Type, Content-Length, Accept-Encoding, X-CSRF-Token, Authorization'')
   \<and> (Method r \<noteq> ''OPTIONS'' \<longrightarrow>
        (\<exists>w'. enableCORS next w r s = next w' r s
           \<and> status w' = status w \<and> body w' = body w
           \<and> header w' ''Access-Control-Allow-Origin'' = Some ''*''
           \<and> header w' ''Access-Control-Allow-Methods'' = Some ''POST, GET, OPTIONS, PUT, DELETE''
           \<and> header w' ''Access-Control-Allow-Headers''
               = Some ''Accept, Content-Type, Content-Length, Accept-Encoding, X-CSRF-Token, Authorization''
           \<and> (\<forall>k. k \<noteq> ''Access-Control-Allow-Origin'' \<and> k \<noteq> ''Access-Control-Allow-Methods''
                  \<and> k \<noteq> ''Access-Control-Allow-Headers'' \<longrightarrow> header w' k = header w k)))"
proof (intro conjI impI)
  assume m: "Method r \<noteq> ''OPTIONS''"
  let ?w = "header_Set ''Access-Control-Allow-Headers''
              ''Accept, Content-Type, Content-Length, Accept-Encoding, X-CSRF-Token, Authorization''
              (header_Set ''Access-Control-Allow-Methods'' ''POST, GET, OPTIONS, PUT, DELETE''
                (header_Set ''Access-Control-Allow-Origin'' ''*'' w))"
  have "enableCORS next w r s = next ?w r s"
    using m by (simp add: enableCORS_def)
  moreover have "status ?w = status w" "body ?w = body w"
    by (simp_all add: header_Set_def)
  moreover have "header ?w ''Access-Control-Allow-Origin'' = Some ''*''"
    by (simp add: header_Set_def)
  moreover have "header ?w ''Access-Control-Allow-Methods'' = Some ''POST, GET, OPTIONS, PUT, DELETE''"
    by (simp add: header_Set_def)
  moreover have "header ?w ''Access-Control-Allow-Headers''
      = Some ''Accept, Content-Type, Content-Length, Accept-Encoding, X-CSRF-Token, Authorization''"
    by (simp add: header_Set_def)
  moreover have "\<forall>k. k \<noteq> ''Access-Control-Allow-Origin'' \<and> k \<noteq> ''Access-Control-Allow-Methods''
                  \<and> k \<noteq> ''Access-Control-Allow-Headers'' \<longrightarrow> header ?w k = header w k"
    by (simp add: header_Set_def)
  ultimately show "\<exists>w'. enableCORS next w r s = next w' r s
           \<and> status w' = status w \<and> body w' = body w
           \<and> header w' ''Access-Control-Allow-Origin'' = Some ''*''
           \<and> header w' ''Access-Control-Allow-Methods'' = Some ''POST, GET, OPTIONS, PUT, DELETE''
           \<and> header w' ''Access-Control-Allow-Headers''
               = Some ''Accept, Content-Type, Content-Length, Accept-Encoding, X-CSRF-Token, Authorization''
           \<and> (\<forall>k. k \<noteq> ''Access-Control-Allow-Origin'' \<and> k \<noteq> ''Access-Control-Allow-Methods''
                  \<and> k \<noteq> ''Access-Control-Allow-Headers'' \<longrightarrow> header w' k = header w k)"
    by blast
qed (simp_all add: enableCORS_def WriteHeader_def header_Set_def fresh_def)

text \<open>
  An OPTIONS request in front of a handler that would count its call leaves the
  counter at 0; a DELETE request reaches the handler, which counts to 1.
\<close>

theorem enableCORS_preflight_and_delegation_witness:
  "Method (plain_request ''OPTIONS'') = ''OPTIONS''
   \<and> snd (enableCORS counting (fresh Map.empty) (plain_request ''OPTIONS'') 0) = 0
   \<and> status (fst (enableCORS counting (fresh Map.empty) (plain_request ''OPTIONS'') 0)) = Some 200
   \<and> body (fst (enableCORS counting (fresh Map.empty) (plain_request ''OPTIONS'') 0)) = []
   \<and> Method (plain_request ''DELETE'') \<noteq> ''OPTIONS''
   \<and> snd (enableCORS counting (fresh Map.empty) (plain_request ''DELETE'') 0) = 1"
proof -
  have o: "Method (plain_request ''OPTIONS'') = ''OPTIONS''"
    by (simp add: plain_request_def)
  have d: "Method (plain_request ''DELETE'') \<noteq> ''OPTIONS''"
    by (simp add: plain_request_def)
  from o enableCORS_preflight_and_delegation
         [where r = "plain_request ''OPTIONS''" and ?next = counting and next' = counting
            and h = Map.empty and s = 0]
  have "snd (enableCORS counting (fresh Map.empty) (plain_request ''OPTIONS'') 0) = 0"
       "status (fst (enableCORS counting (fresh Map.empty) (plain_request ''OPTIONS'') 0)) = Some 200"
       "body (fst (enableCORS counting (fresh Map.empty) (plain_request ''OPTIONS'') 0)) = []"
    by blast+
  moreover
  from d enableCORS_preflight_and_delegation
         [where r = "plain_request ''DELETE''" and ?next = counting and w = "fresh Map.empty"
            and s = 0]
  obtain w' where "enableCORS counting (fresh Map.empty) (plain_request ''DELETE'') 0
                     = counting w' (plain_request ''DELETE'') 0"
    by blast
  then have "snd (enableCORS counting (fresh Map.empty) (plain_request ''DELETE'') 0) = 1"
    by (simp add: counting_def)
  ultimately show ?thesis using o d by blast
qed

subsection \<open>DELETE /favorites/{favoriteId}\<close>

text \<open>
  Claim C6. When the path segment does not parse as an integer (\<open>Atoi\<close> returns an
  error), the handler answers status 400 with the one line \<open>Invalid favorite ID\<close> as
  its body. The connection is returned as it was, so no statement was sent and the
  store is untouched, and the result is the same whatever the database handle is.
\<close>

theorem deleteFavorite_invalid_id:
  assumes "Atoi (vars_get (Vars r) ''favoriteId'') = Inl e"
  shows "status (fst (deleteFavorite db (fresh h) r c)) = Some 400
       \<and> body (fst (deleteFavorite db (fresh h) r c)) = [Line ''Invalid favorite ID'']
       \<and> snd (deleteFavorite db (fresh h) r c) = c
       \<and> deleteFavorite db (fresh h) r c = deleteFavorite db' (fresh h) r c"
  by (simp add: deleteFavorite_bad_id [OF assms] http_Error_fresh)

theorem deleteFavorite_invalid_id_witness:
  "Atoi (vars_get (Vars ((plain_request ''DELETE'')\<lparr>Vars := [''favoriteId'' \<mapsto> ''abc'']\<rparr>)) ''favoriteId'')
     = Inl ''strconv.Atoi: parsing abc: invalid syntax''
   \<and> status (fst (deleteFavorite (pg no_other) (fresh Map.empty)
        ((plain_request ''DELETE'')\<lparr>Vars := [''favoriteId'' \<mapsto> ''abc'']\<rparr>) example_conn)) = Some 400
   \<and> body (fst (deleteFavorite (pg no_other) (fresh Map.empty)
        ((plain_request ''DELETE'')\<lparr>Vars := [''favoriteId'' \<mapsto> ''abc'']\<rparr>) example_conn))
       = [Line ''Invalid favorite ID'']
   \<and> snd (deleteFavorite (pg no_other) (fresh Map.empty)
        ((plain_request ''DELETE'')\<lparr>Vars := [''favoriteId'' \<mapsto> ''abc'']\<rparr>) example_conn) = example_conn"
proof -
  have a: "Atoi (vars_get (Vars ((plain_request ''DELETE'')\<lparr>Vars := [''favoriteId'' \<mapsto> ''abc'']\<rparr>)) ''favoriteId'')
             = Inl ''strconv.Atoi: parsing abc: invalid syntax''"
    by (simp add: plain_request_def vars_get_def Atoi_def ParseInt_def is_digit_def)
  from deleteFavorite_invalid_id [OF a, of "pg no_other" Map.empty example_conn "pg no_other"] a
  show ?thesis by simp
qed

text \<open>
  Claim C7. For every path segment that parses as an integer \<open>n\<close>, when the DELETE
  statement succeeds the handler answers status 204 with an empty body, whatever number
  \<open>k\<close> of affected rows the store reports (0 included): the handler sends the one
  statement with \<open>n\<close> bound and does not look at \<open>k\<close>. On the relational store the
  statement always succeeds, and with no row of that identifier the store is unchanged.
\<close>

theorem deleteFavorite_success_ignores_rows_affected:
  assumes "Atoi (vars_get (Vars r) ''favoriteId'') = Inr n"
  shows "(drv_Exec db ''DELETE FROM favorite WHERE id = $1'' [SqlInt n] (store c) = (Inr k, s') \<longrightarrow>
            status (fst (deleteFavorite db (fresh h) r c)) = Some 204
          \<and> body (fst (deleteFavorite db (fresh h) r c)) = []
          \<and> snd (deleteFavorite db (fresh h) r c) =
              \<lparr>store = s', issued = issued c @ [(''DELETE FROM favorite WHERE id = $1'', [SqlInt n])]\<rparr>)
       \<and> status (fst (deleteFavorite (pg other) (fresh h) r \<lparr>store = d, issued = l\<rparr>)) = Some 204
       \<and> body (fst (deleteFavorite (pg other) (fresh h) r \<lparr>store = d, issued = l\<rparr>)) = []
       \<and> (n \<notin> set (map fav_id (favorite_tbl d)) \<longrightarrow>
            store (snd (deleteFavorite (pg other) (fresh h) r \<lparr>store = d, issued = l\<rparr>)) = d)"
proof (intro conjI impI)
  assume "drv_Exec db ''DELETE FROM favorite WHERE id = $1'' [SqlInt n] (store c) = (Inr k, s')"
  note eq = deleteFavorite_deleted [OF assms this]
  show "status (fst (deleteFavorite db (fresh h) r c)) = Some 204"
    by (simp add: eq WriteHeader_fresh)
  show "body (fst (deleteFavorite db (fresh h) r c)) = []"
    by (simp add: eq WriteHeader_fresh)
  show "snd (deleteFavorite db (fresh h) r c) =
          \<lparr>store = s', issued = issued c @ [(''DELETE FROM favorite WHERE id = $1'', [SqlInt n])]\<rparr>"
    by (simp add: eq)
next
  have ex: "drv_Exec (pg other) ''DELETE FROM favorite WHERE id = $1'' [SqlInt n]
              (store \<lparr>store = d, issued = l\<rparr>) =
              (Inr (length (filter (\<lambda>f. fav_id f = n) (favorite_tbl d))),
               d\<lparr>favorite_tbl := filter (\<lambda>f. fav_id f \<noteq> n) (favorite_tbl d)\<rparr>)"
    by (simp add: pg_delete)
  note eq = deleteFavorite_deleted [OF assms ex]
  show "status (fst (deleteFavorite (pg other) (fresh h) r \<lparr>store = d, issued = l\<rparr>)) = Some 204"
    by (simp add: eq WriteHeader_fresh)
  show "body (fst (deleteFavorite (pg other) (fresh h) r \<lparr>store = d, issued = l\<rparr>)) = []"
    by (simp add: eq WriteHeader_fresh)
  assume "n \<notin> set (map fav_id (favorite_tbl d))"
  then have "filter (\<lambda>f. fav_id f \<noteq> n) (favorite_tbl d) = favorite_tbl d"
    by (induction "favorite_tbl d") (auto simp: filter_id_conv)
  then show "store (snd (deleteFavorite (pg other) (fresh h) r \<lparr>store = d, issued = l\<rparr>)) = d"
    by (simp add: eq)
qed

text \<open>Identifier 42 has no row in the example store: status 204, store unchanged.\<close>

theorem deleteFavorite_success_ignores_rows_affected_witness:
  "Atoi (vars_get (Vars ((plain_request ''DELETE'')\<lparr>Vars := [''favoriteId'' \<mapsto> ''42'']\<rparr>)) ''favoriteId'')
     = Inr 42
   \<and> drv_Exec (pg no_other) ''DELETE FROM favorite WHERE id = $1'' [SqlInt 42] (store example_conn)
       = (Inr 0, example_db)
   \<and> 42 \<notin> set (map fav_id (favorite_tbl example_db))
   \<and> status (fst (deleteFavorite (pg no_other) (fresh Map.empty)
        ((plain_request ''DELETE'')\<lparr>Vars := [''favoriteId'' \<mapsto> ''42'']\<rparr>) example_conn)) = Some 204
   \<and> body (fst (deleteFavorite (pg no_other) (fresh Map.empty)
        ((plain_request ''DELETE'')\<lparr>Vars := [''favoriteId'' \<mapsto> ''42'']\<rparr>) example_conn)) = []
   \<and> store (snd (deleteFavorite (pg no_other) (fresh Map.empty)
        ((plain_request ''DELETE'')\<lparr>Vars := [''favoriteId'' \<mapsto> ''42'']\<rparr>) example_conn)) = example_db"
proof -
  have a: "Atoi (vars_get (Vars ((plain_request ''DELETE'')\<lparr>Vars := [''favoriteId'' \<mapsto> ''42'']\<rparr>)) ''favoriteId'')
             = Inr 42"
    by (simp add: plain_request_def vars_get_def Atoi_def ParseInt_def is_digit_def in_int_def)
  have x: "drv_Exec (pg no_other) ''DELETE FROM favorite WHERE id = $1'' [SqlInt 42] (store example_conn)
             = (Inr 0, example_db)"
    by (simp add: pg_delete example_conn_def example_db_def)
  have m: "42 \<notin> set (map fav_id (favorite_tbl example_db))"
    by (simp add: example_db_def)
  from deleteFavorite_success_ignores_rows_affected
         [OF a, of "pg no_other" example_conn 0 example_db Map.empty no_other example_db "[]"]
       a x m
  show ?thesis by (simp add: example_conn_def)
qed

subsection \<open>Failures of the store in GET /favorites and GET /items\<close>



subsection \<open>An empty result\<close>

text \<open>
  Claim C9. When the query returns no row, GET /favorites and GET /items answer status
  200 with content type \<open>application/json\<close> and the JSON document \<open>null\<close> as the body:
  the slice is still \<open>nil\<close> when it is encoded. The document is not the empty array.
\<close>

theorem empty_result_is_null:
  "(drv_Query db favorites_query [] (store c) = (Inr [], s') \<longrightarrow>
      status (fst (getFavorites db (fresh h) r c)) = Some 200
    \<and> body (fst (getFavorites db (fresh h) r c)) = [JsonDoc JNull]
    \<and> header (fst (getFavorites db (fresh h) r c)) ''Content-Type'' = Some ''application/json'')
   \<and> (drv_Query db (spec_items_query (params_Get (Query_params r) ''title'')
                                       (params_Get (Query_params r) ''sortBy''))
         (spec_items_args (params_Get (Query_params r) ''title'')) (store c) = (Inr [], s') \<longrightarrow>
      status (fst (getItems db (fresh h) r c)) = Some 200
    \<and> body (fst (getItems db (fresh h) r c)) = [JsonDoc JNull]
    \<and> header (fst (getItems db (fresh h) r c)) ''Content-Type'' = Some ''application/json'')
   \<and> JsonDoc JNull \<noteq> JsonDoc (JArr [])"
proof (intro conjI impI)
  assume q: "drv_Query db favorites_query [] (store c) = (Inr [], s')"
  have l: "getFavorites_loop [] None = Inr None" by simp
  note eq = getFavorites_ok [OF q l]
  show "status (fst (getFavorites db (fresh h) r c)) = Some 200"
    by (simp add: eq json_Encode_fresh)
  show "body (fst (getFavorites db (fresh h) r c)) = [JsonDoc JNull]"
    by (simp add: eq json_Encode_fresh json_slice_def)
  show "header (fst (getFavorites db (fresh h) r c)) ''Content-Type'' = Some ''application/json''"
    by (simp add: eq json_Encode_fresh)
next
  assume q: "drv_Query db (spec_items_query (params_Get (Query_params r) ''title'')
                                            (params_Get (Query_params r) ''sortBy''))
               (spec_items_args (params_Get (Query_params r) ''title'')) (store c) = (Inr [], s')"
  have l: "getItems_loop [] None = Inr None" by simp
  note eq = getItems_ok [OF q l]
  show "status (fst (getItems db (fresh h) r c)) = Some 200"
    by (simp add: eq json_Encode_fresh)
  show "body (fst (getItems db (fresh h) r c)) = [JsonDoc JNull]"
    by (simp add: eq json_Encode_fresh json_slice_def)
  show "header (fst (getItems db (fresh h) r c)) ''Content-Type'' = Some ''application/json''"
    by (simp add: eq json_Encode_fresh)
qed simp

text \<open>Both handlers on the store whose tables are empty.\<close>

theorem empty_result_is_null_witness:
  "drv_Query (pg no_other) favorites_query [] (store \<lparr>store = empty_db, issued = []\<rparr>)
     = (Inr [], empty_db)
   \<and> status (fst (getFavorites (pg no_other) (fresh Map.empty) (items_request [])
        \<lparr>store = empty_db, issued = []\<rparr>)) = Some 200
   \<and> body (fst (getFavorites (pg no_other) (fresh Map.empty) (items_request [])
        \<lparr>store = empty_db, issued = []\<rparr>)) = [JsonDoc JNull]
   \<and> status (fst (getItems (pg no_other) (fresh Map.empty) (items_request [])
        \<lparr>store = empty_db, issued = []\<rparr>)) = Some 200
   \<and> body (fst (getItems (pg no_other) (fresh Map.empty) (items_request [])
        \<lparr>store = empty_db, issued = []\<rparr>)) = [JsonDoc JNull]"
proof -
  have q1: "drv_Query (pg no_other) favorites_query [] (store \<lparr>store = empty_db, issued = []\<rparr>)
              = (Inr [], empty_db)"
    by (simp add: pg_favorites favorites_join_def join_pairs_def empty_db_def)
  have q2: "drv_Query (pg no_other)
              (spec_items_query (params_Get (Query_params (items_request [])) ''title'')
                                (params_Get (Query_params (items_request [])) ''sortBy''))
              (spec_items_args (params_Get (Query_params (items_request [])) ''title''))
              (store \<lparr>store = empty_db, issued = []\<rparr>)
              = (Inr [], empty_db)"
    by (simp add: items_request_def spec_items_query_def spec_items_args_def pg_items_all
          empty_db_def)
  from empty_result_is_null
         [where db = "pg no_other" and c = "\<lparr>store = empty_db, issued = []\<rparr>"
            and s' = empty_db and r = "items_request []" and h = Map.empty]
       q1 q2
  show ?thesis by blast
qed

subsection \<open>POST /favorites\<close>

text \<open>
  Claim C10. A body that is a JSON object without a member for \<open>item_id\<close> (the empty
  object, for one) decodes without error and leaves \<open>ItemID\<close> at 0. The response is
  not 400: the handler sends the INSERT with 0 bound as the item identifier, and
  answers 201 with an empty body when the store accepts the statement.
\<close>

theorem postFavorite_missing_item_id:
  assumes "Body r = Document (JObj fs)"
    and "\<forall>(k, j)\<in>set fs. \<not> equal_fold k ''item_id''"
  shows "Decode (Body r) = Inr 0
       \<and> status (fst (postFavorite db (fresh h) r c)) \<noteq> Some 400
       \<and> issued (snd (postFavorite db (fresh h) r c))
           = issued c @ [(''INSERT INTO favorite (item_id) VALUES ($1)'', [SqlInt 0])]
       \<and> (drv_Exec db ''INSERT INTO favorite (item_id) VALUES ($1)'' [SqlInt 0] (store c) = (Inr k, s')
            \<longrightarrow> status (fst (postFavorite db (fresh h) r c)) = Some 201
              \<and> body (fst (postFavorite db (fresh h) r c)) = [])"
proof -
  have d: "Decode (Body r) = Inr 0"
    by (simp add: Decode_def assms(1) decode_fields_no_key [OF assms(2)])
  have s: "status (fst (postFavorite db (fresh h) r c)) \<noteq> Some 400"
  proof (cases "drv_Exec db ''INSERT INTO favorite (item_id) VALUES ($1)'' [SqlInt 0] (store c)")
    case (Pair res s2)
    then show ?thesis
      by (cases res)
         (simp_all add: postFavorite_insert_failed [OF d] postFavorite_inserted [OF d]
            http_Error_fresh WriteHeader_fresh)
  qed
  have i: "drv_Exec db ''INSERT INTO favorite (item_id) VALUES ($1)'' [SqlInt 0] (store c) = (Inr k, s')
            \<longrightarrow> status (fst (postFavorite db (fresh h) r c)) = Some 201
              \<and> body (fst (postFavorite db (fresh h) r c)) = []"
    by (auto simp: postFavorite_inserted [OF d] WriteHeader_fresh)
  from d s i postFavorite_issued [OF d] show ?thesis by blast
qed

text \<open>
  The body \<open>{}\<close> against the example store with the foreign key not declared: the row
  with item identifier 0 is inserted and the answer is 201.
\<close>

theorem postFavorite_missing_item_id_witness:
  "Body (post_request (JObj [])) = Document (JObj [])
   \<and> Decode (Body (post_request (JObj []))) = Inr 0
   \<and> issued (snd (postFavorite (pg no_other) (fresh Map.empty) (post_request (JObj []))
        \<lparr>store = example_db\<lparr>fk_enforced := False\<rparr>, issued = []\<rparr>))
       = [(''INSERT INTO favorite (item_id) VALUES ($1)'', [SqlInt 0])]
   \<and> status (fst (postFavorite (pg no_other) (fresh Map.empty) (post_request (JObj []))
        \<lparr>store = example_db\<lparr>fk_enforced := False\<rparr>, issued = []\<rparr>)) = Some 201
   \<and> body (fst (postFavorite (pg no_other) (fresh Map.empty) (post_request (JObj []))
        \<lparr>store = example_db\<lparr>fk_enforced := False\<rparr>, issued = []\<rparr>)) = []"
proof -
  have b: "Body (post_request (JObj [])) = Document (JObj [])"
    by (simp add: post_request_def)
  have n: "\<forall>(k, j)\<in>set ([] :: (string \<times> json) list). \<not> equal_fold k ''item_id''"
    by simp
  have x: "drv_Exec (pg no_other) ''INSERT INTO favorite (item_id) VALUES ($1)'' [SqlInt 0]
             (store \<lparr>store = example_db\<lparr>fk_enforced := False\<rparr>, issued = []\<rparr>)
           = (Inr 1, example_db\<lparr>fk_enforced := False,
                favorite_tbl := [\<lparr>fav_id = 1, fav_item_id = 2\<rparr>, \<lparr>fav_id = 2, fav_item_id = 0\<rparr>],
                favorite_seq := 3\<rparr>)"
    by (simp add: pg_insert example_db_def)
  from postFavorite_missing_item_id
         [OF b n, where db = "pg no_other"
            and c = "\<lparr>store = example_db\<lparr>fk_enforced := False\<rparr>, issued = []\<rparr>"
            and h = Map.empty and k = 1
            and s' = "example_db\<lparr>fk_enforced := False,
                favorite_tbl := [\<lparr>fav_id = 1, fav_item_id = 2\<rparr>, \<lparr>fav_id = 2, fav_item_id = 0\<rparr>],
                favorite_seq := 3\<rparr>"]
       b n x
  show ?thesis by simp
qed




subsection \<open>POST /favorites followed by GET /favorites\<close>

text \<open>
  Claim C1. On the relational store, with \<open>sneakers.id\<close> a key, for every item
  identifier \<open>i\<close> of an existing sneaker: GET /favorites answers 200 with some list
  \<open>before\<close> (the document \<open>null\<close> when it is empty); POST /favorites with the body
  \<open>{"item_id": i}\<close> answers 201; and GET /favorites after it answers 200 with the
  entries of \<open>before\<close> and exactly one more entry \<open>f\<close>, whose item identifier is \<open>i\<close>.
  (The store of the model delivers the new entry last; the statement has no
  \<open>ORDER BY\<close>.)
\<close>

theorem post_then_get_favorites:
  assumes ok: "database_ok d"
    and i: "i \<in> set (map s_id (sneakers_tbl d))"
    and b: "Body r = Document (JObj [(''item_id'', JInt i)])"
  shows "\<exists>before f.
       status (fst (getFavorites (pg other) (fresh h0) r0 \<lparr>store = d, issued = l\<rparr>)) = Some 200
     \<and> body (fst (getFavorites (pg other) (fresh h0) r0 \<lparr>store = d, issued = l\<rparr>))
         = [JsonDoc (json_slice json_favorite (slice_of before))]
     \<and> status (fst (postFavorite (pg other) (fresh h1) r \<lparr>store = d, issued = l\<rparr>)) = Some 201
     \<and> status (fst (getFavorites (pg other) (fresh h2) r2
          (snd (postFavorite (pg other) (fresh h1) r \<lparr>store = d, issued = l\<rparr>)))) = Some 200
     \<and> body (fst (getFavorites (pg other) (fresh h2) r2
          (snd (postFavorite (pg other) (fresh h1) r \<lparr>store = d, issued = l\<rparr>))))
         = [JsonDoc (JArr (map json_favorite (before @ [f])))]
     \<and> f_ItemID f = i"
proof -
  from ok have dist: "distinct (map s_id (sneakers_tbl d))"
    and sn: "\<forall>s\<in>set (sneakers_tbl d). sneaker_ok s"
    and fv: "\<forall>f\<in>set (favorite_tbl d). favorite_ok f"
    and sq: "in_int (favorite_seq d)"
    by (simp_all add: database_ok_def list_all_iff)
  from filter_key [OF dist i] obtain s
    where fs: "filter (\<lambda>s. i = s_id s) (sneakers_tbl d) = [s]"
      and s: "s \<in> set (sneakers_tbl d)" and si: "s_id s = i"
    by blast
  from sn s si have ii: "in_int i" by (auto simp: sneaker_ok_def)
  let ?nf = "\<lparr>fav_id = favorite_seq d, fav_item_id = i\<rparr>"
  let ?d' = "d\<lparr>favorite_tbl := favorite_tbl d @ [?nf], favorite_seq := favorite_seq d + 1\<rparr>"
  let ?c = "\<lparr>store = d, issued = l\<rparr>"
  let ?c' = "\<lparr>store = ?d',
              issued = l @ [(''INSERT INTO favorite (item_id) VALUES ($1)'', [SqlInt i])]\<rparr>"
  have dec: "Decode (Body r) = Inr i"
    by (simp add: b Decode_def equal_fold_def store_ItemID_def ii)
  have x: "drv_Exec (pg other) ''INSERT INTO favorite (item_id) VALUES ($1)'' [SqlInt i] (store ?c)
             = (Inr 1, ?d')"
    using i by (simp add: pg_insert)
  have post: "postFavorite (pg other) (fresh h1) r ?c = (WriteHeader 201 (fresh h1), ?c')"
    by (simp add: postFavorite_inserted [OF dec x])
  have scans: "\<forall>p\<in>set (join_pairs d). scan_favorite ((\<lambda>(f, s). join_cols f s) p) = Inr (joined p)"
    using sn fv by (auto dest!: join_pairs_members simp: scan_favorite_joined)
  have loop: "getFavorites_loop (favorites_join d) None = Inr (slice_of (map joined (join_pairs d)))"
    unfolding favorites_join_def by (rule getFavorites_loop_map [OF scans])
  have q: "drv_Query (pg other) favorites_query [] (store ?c) = (Inr (favorites_join d), d)"
    by (simp add: pg_favorites)
  note get0 = getFavorites_ok [OF q loop]
  have jp: "join_pairs ?d' = join_pairs d @ [(?nf, s)]"
    using fs by (simp add: join_pairs_insert)
  have nf: "favorite_ok ?nf"
    using sq ii by (simp add: favorite_ok_def)
  have scans': "\<forall>p\<in>set (join_pairs ?d'). scan_favorite ((\<lambda>(f, s). join_cols f s) p) = Inr (joined p)"
    unfolding jp using scans nf sn s by (auto simp: scan_favorite_joined)
  have loop': "getFavorites_loop (favorites_join ?d') None
                 = Inr (Some (map joined (join_pairs d) @ [joined (?nf, s)]))"
    unfolding favorites_join_def
    using getFavorites_loop_map [OF scans'] by (simp add: jp slice_of_def)
  have q': "drv_Query (pg other) favorites_query [] (store ?c') = (Inr (favorites_join ?d'), ?d')"
    by (simp add: pg_favorites)
  note get1 = getFavorites_ok [OF q' loop']
  have "status (fst (getFavorites (pg other) (fresh h0) r0 ?c)) = Some 200"
    by (simp add: get0 json_Encode_fresh)
  moreover have "body (fst (getFavorites (pg other) (fresh h0) r0 ?c))
         = [JsonDoc (json_slice json_favorite (slice_of (map joined (join_pairs d))))]"
    by (simp add: get0 json_Encode_fresh)
  moreover have "status (fst (postFavorite (pg other) (fresh h1) r ?c)) = Some 201"
    by (simp add: post WriteHeader_fresh)
  moreover have "status (fst (getFavorites (pg other) (fresh h2) r2
          (snd (postFavorite (pg other) (fresh h1) r ?c)))) = Some 200"
    by (simp add: post get1 json_Encode_fresh)
  moreover have "body (fst (getFavorites (pg other) (fresh h2) r2
          (snd (postFavorite (pg other) (fresh h1) r ?c))))
         = [JsonDoc (JArr (map json_favorite (map joined (join_pairs d) @ [joined (?nf, s)])))]"
    by (simp add: post get1 json_Encode_fresh json_slice_def)
  moreover have "f_ItemID (joined (?nf, s)) = i"
    by (simp add: joined_def)
  ultimately show ?thesis by blast
qed

text \<open>
  The example store holds one favorite, of sneaker 2. After a POST for sneaker 1 the
  list holds that entry and a second one, for sneaker 1.
\<close>

theorem post_then_get_favorites_witness:
  "database_ok example_db
   \<and> 1 \<in> set (map s_id (sneakers_tbl example_db))
   \<and> Body (post_request (JObj [(''item_id'', JInt 1)])) = Document (JObj [(''item_id'', JInt 1)])
   \<and> (\<exists>before f.
       status (fst (getFavorites (pg no_other) (fresh Map.empty) (plain_request ''GET'')
          \<lparr>store = example_db, issued = []\<rparr>)) = Some 200
     \<and> body (fst (getFavorites (pg no_other) (fresh Map.empty) (plain_request ''GET'')
          \<lparr>store = example_db, issued = []\<rparr>))
         = [JsonDoc (json_slice json_favorite (slice_of before))]
     \<and> status (fst (postFavorite (pg no_other) (fresh Map.empty)
          (post_request (JObj [(''item_id'', JInt 1)])) \<lparr>store = example_db, issued = []\<rparr>)) = Some 201
     \<and> status (fst (getFavorites (pg no_other) (fresh Map.empty) (plain_request ''GET'')
          (snd (postFavorite (pg no_other) (fresh Map.empty)
             (post_request (JObj [(''item_id'', JInt 1)])) \<lparr>store = example_db, issued = []\<rparr>)))) = Some 200
     \<and> body (fst (getFavorites (pg no_other) (fresh Map.empty) (plain_request ''GET'')
          (snd (postFavorite (pg no_other) (fresh Map.empty)
             (post_request (JObj [(''item_id'', JInt 1)])) \<lparr>store = example_db, issued = []\<rparr>))))
         = [JsonDoc (JArr (map json_favorite (before @ [f])))]
     \<and> f_ItemID f = 1)
   \<and> body (fst (getFavorites (pg no_other) (fresh Map.empty) (plain_request ''GET'')
          \<lparr>store = example_db, issued = []\<rparr>))
       = [JsonDoc (JArr
            [JObj [(''id'', JInt 1), (''item_id'', JInt 2), (''title'', JStr ''Classic Runner''),
                   (''price'', JInt 8999), (''image_url'', JStr ''/img/2.jpg''),
                   (''is_favorite'', JBool True), (''favorite_id'', JInt 1),
                   (''is_added'', JBool False)]])]
   \<and> body (fst (getFavorites (pg no_other) (fresh Map.empty) (plain_request ''GET'')
          (snd (postFavorite (pg no_other) (fresh Map.empty)
             (post_request (JObj [(''item_id'', JInt 1)])) \<lparr>store = example_db, issued = []\<rparr>))))
       = [JsonDoc (JArr
            [JObj [(''id'', JInt 1), (''item_id'', JInt 2), (''title'', JStr ''Classic Runner''),
                   (''price'', JInt 8999), (''image_url'', JStr ''/img/2.jpg''),
                   (''is_favorite'', JBool True), (''favorite_id'', JInt 1),
                   (''is_added'', JBool False)],
             JObj [(''id'', JInt 2), (''item_id'', JInt 1), (''title'', JStr ''Air Max''),
                   (''price'', JInt 12999), (''image_url'', JStr ''/img/1.jpg''),
                   (''is_favorite'', JBool False), (''favorite_id'', JNull),
                   (''is_added'', JBool False)]])]"
proof -
  have e0: "body (fst (getFavorites (pg no_other) (fresh Map.empty) (plain_request ''GET'')
          \<lparr>store = example_db, issued = []\<rparr>))
       = [JsonDoc (JArr
            [JObj [(''id'', JInt 1), (''item_id'', JInt 2), (''title'', JStr ''Classic Runner''),
                   (''price'', JInt 8999), (''image_url'', JStr ''/img/2.jpg''),
                   (''is_favorite'', JBool True), (''favorite_id'', JInt 1),
                   (''is_added'', JBool False)]])]"
    by code_simp
  have e1: "body (fst (getFavorites (pg no_other) (fresh Map.empty) (plain_request ''GET'')
          (snd (postFavorite (pg no_other) (fresh Map.empty)
             (post_request (JObj [(''item_id'', JInt 1)])) \<lparr>store = example_db, issued = []\<rparr>))))
       = [JsonDoc (JArr
            [JObj [(''id'', JInt 1), (''item_id'', JInt 2), (''title'', JStr ''Classic Runner''),
                   (''price'', JInt 8999), (''image_url'', JStr ''/img/2.jpg''),
                   (''is_favorite'', JBool True), (''favorite_id'', JInt 1),
                   (''is_added'', JBool False)],
             JObj [(''id'', JInt 2), (''item_id'', JInt 1), (''title'', JStr ''Air Max''),
                   (''price'', JInt 12999), (''image_url'', JStr ''/img/1.jpg''),
                   (''is_favorite'', JBool False), (''favorite_id'', JNull),
                   (''is_added'', JBool False)]])]"
    by code_simp
  have m: "1 \<in> set (map s_id (sneakers_tbl example_db))"
    by (simp add: example_db_def)
  have b: "Body (post_request (JObj [(''item_id'', JInt 1)])) = Document (JObj [(''item_id'', JInt 1)])"
    by (simp add: post_request_def)
  note w = post_then_get_favorites
             [OF example_db_ok m b, where other = no_other and ?h0.0 = Map.empty
                and ?h1.0 = Map.empty and ?h2.0 = Map.empty and ?r0.0 = "plain_request ''GET''"
                and ?r2.0 = "plain_request ''GET''" and l = "[]"]
  show ?thesis
    by (insert example_db_ok m b w e0 e1, intro conjI, assumption+)
qed

subsection \<open>The title filter of GET /items\<close>





end
